theory Spec2Isabelle
  imports Complex_Main "HOL-Library.Monad_Syntax"
begin

section \<open>The beam-vector-to-detector transform of DIALS\<close>

text \<open>
  A shallow embedding of \<^verbatim>\<open>from_beam_vector_to_detector.h\<close>: the class
  \<^verbatim>\<open>FromBeamVectorToDetector\<close>, its two constructors, the scalar \<^verbatim>\<open>apply\<close> and the
  array \<^verbatim>\<open>apply\<close>.

  Scope of the model.
  \<^item> A C++ \<^verbatim>\<open>double\<close> is a real number: the finite values, with exact arithmetic.
    Rounding, infinities and NaN are not represented.
  \<^item> A division of doubles whose divisor is zero does not raise in C++: it produces an
    infinity or a NaN. Such a value is not a real number, so every division of the source
    is written with \<open>double_div\<close>, and a computation that divides by zero has the
    value \<open>None\<close>: it has left the model. \<open>None\<close> is never an exception of the source.
  \<^item> An exception of the source is a value \<open>Inl e\<close> of a sum type, a returned value is
    \<open>Inr v\<close>.
  \<^item> The assertion of the scalar apply compares doubles, and a comparison with a NaN is
    false. Where a statement depends on that, the scalar apply is restated with the
    operations of \<^verbatim>\<open>double\<close> as parameters (\<open>apply_vec3_ops\<close>), so that what is proved
    of it holds for every arithmetic, the doubles with their rounding and their NaN
    included.
  \<^item> A \<^verbatim>\<open>flex\<close> array is a list; the index of the loop over it is a natural number
    (the source declares it \<^verbatim>\<open>int\<close>, which holds every index of an array of fewer than
    \<open>2^31\<close> elements).
\<close>

subsection \<open>Numbers and vectors\<close>

type_synonym double = real

definition double_div :: "double \<Rightarrow> double \<Rightarrow> double option" where
  "double_div a b = (if b = 0 then None else Some (a / b))"

text \<open>
  \<^verbatim>\<open>scitbx::vec2<double>\<close> and \<^verbatim>\<open>scitbx::vec3<double>\<close> hold two and three doubles,
  read by index; \<open>v[0]\<close> of a \<open>vec2\<close> is \<open>fst v\<close> and \<open>v[1]\<close> is \<open>snd v\<close>.
\<close>

type_synonym vec2 = "double \<times> double"
type_synonym vec3 = "double \<times> double \<times> double"

text \<open>
  Modelled from the spec: the operations of \<^verbatim>\<open>scitbx/vec3.h\<close>, which is not part of the
  sources. \<open>dot\<close> is the product \<^verbatim>\<open>a * b\<close> of two vectors (the spec's \<open>dot(s1, normal)\<close>),
  \<open>div_vec3\<close> is the quotient \<^verbatim>\<open>v / r\<close> of a vector by a scalar (the spec's
  component-wise division), \<open>normalize\<close> is \<^verbatim>\<open>v.normalize()\<close> (the spec's normalization
  to unit length: the vector divided by its length).
\<close>

fun dot :: "vec3 \<Rightarrow> vec3 \<Rightarrow> double" where
  "dot (a0, a1, a2) (b0, b1, b2) = a0 * b0 + a1 * b1 + a2 * b2"

fun div_vec3 :: "vec3 \<Rightarrow> double \<Rightarrow> vec3 option" where
  "div_vec3 (a0, a1, a2) r =
     do {
       b0 \<leftarrow> double_div a0 r;
       b1 \<leftarrow> double_div a1 r;
       b2 \<leftarrow> double_div a2 r;
       Some (b0, b1, b2)
     }"

definition length_vec3 :: "vec3 \<Rightarrow> double" where
  "length_vec3 v = sqrt (dot v v)"

definition normalize :: "vec3 \<Rightarrow> vec3 option" where
  "normalize v = div_vec3 v (length_vec3 v)"

text \<open>
  The product \<^verbatim>\<open>k * v\<close> of a scalar and a vector. The transform does not call it; the
  statements about rescaled beam vectors and about stored axes are written with it.
\<close>

fun scalar_mul :: "double \<Rightarrow> vec3 \<Rightarrow> vec3" where
  "scalar_mul k (a0, a1, a2) = (k * a0, k * a1, k * a2)"

subsection \<open>The collaborators\<close>

text \<open>
  Modelled from the spec: \<^verbatim>\<open>DetectorCoordinateSystem\<close> of
  \<^verbatim>\<open>detector_coordinate_system.h\<close>, which is not part of the sources. The spec gives it
  three 3D vectors, the two in-plane axes and the normal, read by the three getters the
  constructor calls.
\<close>

record DetectorCoordinateSystem =
  get_x_axis :: vec3
  get_y_axis :: vec3
  get_normal :: vec3

text \<open>
  Modelled from the spec: \<^verbatim>\<open>dials::error\<close> and \<^verbatim>\<open>DIALS_ASSERT\<close> of \<^verbatim>\<open>error.h\<close>, which is
  not part of the sources. A failed \<^verbatim>\<open>DIALS_ASSERT\<close> throws the one error kind of the
  spec, the geometry error.
\<close>

datatype error = GeometryError

subsection \<open>The class and its constructors\<close>

record FromBeamVectorToDetector =
  x_axis :: vec3
  y_axis :: vec3
  normal :: vec3
  origin :: vec2
  distance :: double

text \<open>
  The default constructor initialises \<^verbatim>\<open>distance_\<close> to \<open>0.0\<close> and names no other
  member: what the vectors hold is left to \<^verbatim>\<open>scitbx\<close>, so the model takes their contents
  as parameters.
\<close>

definition FromBeamVectorToDetector_default ::
    "vec3 \<Rightarrow> vec3 \<Rightarrow> vec3 \<Rightarrow> vec2 \<Rightarrow> FromBeamVectorToDetector" where
  "FromBeamVectorToDetector_default xa ya n og =
     \<lparr>x_axis = xa, y_axis = ya, normal = n, origin = og, distance = 0\<rparr>"

text \<open>
  The constructor from a detector coordinate system. It divides by the length of each
  axis and by each pixel size without a check; \<open>None\<close> is the result when one of these
  divisors is zero.
\<close>

definition FromBeamVectorToDetector_init ::
    "DetectorCoordinateSystem \<Rightarrow> vec2 \<Rightarrow> vec2 \<Rightarrow> double \<Rightarrow> FromBeamVectorToDetector option" where
  "FromBeamVectorToDetector_init dcs pixel_size origin0 distance0 =
     do {
       ux \<leftarrow> normalize (get_x_axis dcs);
       xa \<leftarrow> div_vec3 ux (fst pixel_size);
       uy \<leftarrow> normalize (get_y_axis dcs);
       ya \<leftarrow> div_vec3 uy (snd pixel_size);
       n \<leftarrow> normalize (get_normal dcs);
       Some \<lparr>x_axis = xa, y_axis = ya, normal = n, origin = origin0, distance = distance0\<rparr>
     }"

subsection \<open>The scalar apply\<close>

text \<open>
  \<^verbatim>\<open>apply(vec3 s1)\<close>: the assertion \<^verbatim>\<open>DIALS_ASSERT(distance_ * s1_dot_n > 0)\<close> throws when
  its condition is false; otherwise the two coordinates are computed, each with one
  division by \<open>s1_dot_n\<close>.
\<close>

definition apply_vec3 :: "FromBeamVectorToDetector \<Rightarrow> vec3 \<Rightarrow> (error + vec2) option" where
  "apply_vec3 t s1 =
     (let s1_dot_n = dot s1 (normal t) in
      if \<not> (distance t * s1_dot_n > 0) then Some (Inl GeometryError)
      else do {
        qx \<leftarrow> double_div (distance t * dot s1 (x_axis t)) s1_dot_n;
        qy \<leftarrow> double_div (distance t * dot s1 (y_axis t)) s1_dot_n;
        Some (Inr (fst (origin t) + qx, snd (origin t) + qy))
      })"

subsection \<open>The array apply\<close>

text \<open>
  \<^verbatim>\<open>apply(flex_vec3_double s1)\<close>. The body of its loop is a \<^verbatim>\<open>try\<close> block with one
  handler: \<open>try_apply\<close> is the value the body assigns to \<open>result[i]\<close>, the value of
  the scalar apply, or \<open>(-1, -1)\<close> in the handler \<^verbatim>\<open>catch (error)\<close>, which catches
  every \<^verbatim>\<open>dials::error\<close>.
\<close>

definition try_apply :: "FromBeamVectorToDetector \<Rightarrow> vec3 \<Rightarrow> vec2 option" where
  "try_apply t s =
     (case apply_vec3 t s of
        None \<Rightarrow> None
      | Some (Inr v) \<Rightarrow> Some v
      | Some (Inl e) \<Rightarrow> Some (-1, -1))"

text \<open>The loop \<^verbatim>\<open>for (int i = 0; i < s1.size(); ++i)\<close>, entered at index \<open>i\<close>.\<close>

function apply_loop ::
    "FromBeamVectorToDetector \<Rightarrow> vec3 list \<Rightarrow> nat \<Rightarrow> vec2 list \<Rightarrow> vec2 list option" where
  "apply_loop t s1 i result =
     (if i < length s1 then
        (case try_apply t (s1 ! i) of
           None \<Rightarrow> None
         | Some v \<Rightarrow> apply_loop t s1 (Suc i) (result[i := v]))
      else Some result)"
  by pat_completeness auto
termination
  by (relation "measure (\<lambda>(t, s1, i, result). length s1 - i)") auto

text \<open>
  \<^verbatim>\<open>flex_vec2_double result(s1.size())\<close> allocates the result with one element for each
  input. What the elements hold before the loop is left to \<^verbatim>\<open>scitbx\<close>; the model starts
  from \<open>(0, 0)\<close>, and \<open>apply_loop_start\<close> below shows that the start does not matter.
\<close>

definition apply_flex :: "FromBeamVectorToDetector \<Rightarrow> vec3 list \<Rightarrow> vec2 list option" where
  "apply_flex t s1 = apply_loop t s1 0 (replicate (length s1) (0, 0))"

subsection \<open>The scalar apply over any arithmetic\<close>

text \<open>
  The operations of \<^verbatim>\<open>double\<close> that the scalar apply uses, as parameters: the constant
  \<open>0\<close>, the sum, the product, the quotient and the comparisons \<^verbatim>\<open>>\<close> and \<^verbatim>\<open><=\<close>.
  Nothing is assumed of them.
\<close>

record 'a double_ops =
  d_zero :: 'a
  d_add :: "'a \<Rightarrow> 'a \<Rightarrow> 'a"
  d_mul :: "'a \<Rightarrow> 'a \<Rightarrow> 'a"
  d_div :: "'a \<Rightarrow> 'a \<Rightarrow> 'a"
  d_gt :: "'a \<Rightarrow> 'a \<Rightarrow> bool"
  d_le :: "'a \<Rightarrow> 'a \<Rightarrow> bool"

text \<open>
  The product \<^verbatim>\<open>a * b\<close> of two vectors over these operations, summed from the left as
  C++ evaluates \<open>a[0]*b[0] + a[1]*b[1] + a[2]*b[2]\<close>.
\<close>

fun dot_ops :: "'a double_ops \<Rightarrow> 'a \<times> 'a \<times> 'a \<Rightarrow> 'a \<times> 'a \<times> 'a \<Rightarrow> 'a" where
  "dot_ops ops (a0, a1, a2) (b0, b1, b2) =
     d_add ops (d_add ops (d_mul ops a0 b0) (d_mul ops a1 b1)) (d_mul ops a2 b2)"

text \<open>
  The members of the class over the values of an arithmetic, and \<^verbatim>\<open>apply(vec3 s1)\<close>
  over it, statement for statement: the assertion throws when its condition is false,
  and the two coordinates are returned otherwise. A quotient is a value of the
  arithmetic, as it is for doubles.
\<close>

record 'a FromBeamVectorToDetector_d =
  x_axis_d :: "'a \<times> 'a \<times> 'a"
  y_axis_d :: "'a \<times> 'a \<times> 'a"
  normal_d :: "'a \<times> 'a \<times> 'a"
  origin_d :: "'a \<times> 'a"
  distance_d :: 'a

definition apply_vec3_ops ::
    "'a double_ops \<Rightarrow> 'a FromBeamVectorToDetector_d \<Rightarrow> 'a \<times> 'a \<times> 'a \<Rightarrow> error + 'a \<times> 'a" where
  "apply_vec3_ops ops t s1 =
     (let s1_dot_n = dot_ops ops s1 (normal_d t) in
      if \<not> d_gt ops (d_mul ops (distance_d t) s1_dot_n) (d_zero ops) then Inl GeometryError
      else Inr (d_add ops (fst (origin_d t))
                  (d_div ops (d_mul ops (distance_d t) (dot_ops ops s1 (x_axis_d t))) s1_dot_n),
                d_add ops (snd (origin_d t))
                  (d_div ops (d_mul ops (distance_d t) (dot_ops ops s1 (y_axis_d t))) s1_dot_n)))"

text \<open>
  The exact arithmetic of the reals, with which \<open>apply_vec3_ops\<close> is the \<open>apply_vec3\<close>
  above (lemma \<open>apply_vec3_real_ops\<close>).
\<close>

definition real_ops :: "real double_ops" where
  "real_ops = \<lparr>d_zero = 0, d_add = (+), d_mul = (*), d_div = (/), d_gt = (>), d_le = (\<le>)\<rparr>"








text \<open>
  A transform of the real-number model read in another arithmetic, each number mapped
  by \<open>f\<close>.
\<close>

fun in_arith3 :: "(real \<Rightarrow> 'a) \<Rightarrow> vec3 \<Rightarrow> 'a \<times> 'a \<times> 'a" where
  "in_arith3 f (a0, a1, a2) = (f a0, f a1, f a2)"

definition in_arith :: "(real \<Rightarrow> 'a) \<Rightarrow> FromBeamVectorToDetector \<Rightarrow> 'a FromBeamVectorToDetector_d" where
  "in_arith f t =
     \<lparr>x_axis_d = in_arith3 f (x_axis t), y_axis_d = in_arith3 f (y_axis t),
      normal_d = in_arith3 f (normal t), origin_d = (f (fst (origin t)), f (snd (origin t))),
      distance_d = f (distance t)\<rparr>"

subsection \<open>The transform of the scenarios\<close>

text \<open>
  The detector coordinate system of the spec's scenarios and of its identity-like
  transform: the world axes.
\<close>

definition world_axes :: DetectorCoordinateSystem where
  "world_axes = \<lparr>get_x_axis = (1, 0, 0), get_y_axis = (0, 1, 0), get_normal = (0, 0, 1)\<rparr>"


subsection \<open>The spec's words for the stored axes\<close>

text \<open>
  The spec describes the constructor's result in two phrases. A vector
  \<^emph>\<open>unit-normalized\<close> is the vector scaled by the reciprocal of its length;
  a vector \<^emph>\<open>divided component-wise\<close> by a pixel size has each component divided by
  it. Both are written here with the division of the reals, to be compared with what the
  constructor computes.
\<close>

definition spec_unit_normalized :: "vec3 \<Rightarrow> vec3" where
  "spec_unit_normalized v = scalar_mul (1 / length_vec3 v) v"

fun spec_divided_by :: "vec3 \<Rightarrow> double \<Rightarrow> vec3" where
  "spec_divided_by (a0, a1, a2) p = (a0 / p, a1 / p, a2 / p)"

section \<open>Properties\<close>

subsection \<open>Helper facts\<close>

lemma double_div_Some: "b \<noteq> 0 \<Longrightarrow> double_div a b = Some (a / b)"
  by (simp add: double_div_def)

lemma double_div_None: "double_div a 0 = None"
  by (simp add: double_div_def)

lemma guard_nonzero:
  fixes d s :: real
  assumes "d * s > 0"
  shows "s \<noteq> 0"
  using assms by auto

lemma apply_vec3_ok:
  assumes "distance t * dot s1 (normal t) > 0"
  shows "apply_vec3 t s1 =
    Some (Inr (fst (origin t) + distance t * dot s1 (x_axis t) / dot s1 (normal t),
               snd (origin t) + distance t * dot s1 (y_axis t) / dot s1 (normal t)))"
proof -
  have "dot s1 (normal t) \<noteq> 0"
    using assms by (rule guard_nonzero)
  then show ?thesis
    using assms by (simp add: apply_vec3_def Let_def double_div_Some)
qed

lemma apply_vec3_error:
  assumes "\<not> distance t * dot s1 (normal t) > 0"
  shows "apply_vec3 t s1 = Some (Inl GeometryError)"
  using assms by (simp add: apply_vec3_def Let_def)

lemma apply_vec3_total: "apply_vec3 t s1 \<noteq> None"
  by (cases "distance t * dot s1 (normal t) > 0") (simp_all add: apply_vec3_ok apply_vec3_error)

lemma try_apply_ok:
  assumes "distance t * dot s (normal t) > 0"
  shows "try_apply t s =
    Some (fst (origin t) + distance t * dot s (x_axis t) / dot s (normal t),
          snd (origin t) + distance t * dot s (y_axis t) / dot s (normal t))"
  using assms by (simp add: try_apply_def apply_vec3_ok)

lemma try_apply_error:
  assumes "\<not> distance t * dot s (normal t) > 0"
  shows "try_apply t s = Some (-1, -1)"
  using assms by (simp add: try_apply_def apply_vec3_error)

lemma try_apply_total: "\<exists>v. try_apply t s = Some v"
  by (cases "distance t * dot s (normal t) > 0") (simp_all add: try_apply_ok try_apply_error)

text \<open>
  The equation of \<open>apply_loop\<close> unfolds itself, so it is no simplification rule; the
  loop is unfolded one iteration at a time.
\<close>

declare apply_loop.simps [simp del]

lemma apply_loop_done: "\<not> i < length s1 \<Longrightarrow> apply_loop t s1 i r = Some r"
  by (subst apply_loop.simps) simp

lemma apply_loop_step:
  "i < length s1 \<Longrightarrow> try_apply t (s1 ! i) = Some v \<Longrightarrow>
   apply_loop t s1 i r = apply_loop t s1 (Suc i) (r[i := v])"
  by (subst apply_loop.simps) simp

lemma apply_loop_inv:
  "length r = length s1 \<Longrightarrow>
   \<exists>r'. apply_loop t s1 i r = Some r' \<and> length r' = length s1 \<and>
        (\<forall>j<i. r' ! j = r ! j) \<and>
        (\<forall>j. i \<le> j \<longrightarrow> j < length s1 \<longrightarrow> try_apply t (s1 ! j) = Some (r' ! j))"
proof (induction t s1 i r rule: apply_loop.induct)
  case (1 t s1 i result)
  show ?case
  proof (cases "i < length s1")
    case False
    then show ?thesis using "1.prems" by (simp add: apply_loop_done)
  next
    case True
    obtain v where v: "try_apply t (s1 ! i) = Some v"
      using try_apply_total by blast
    have len: "length (result[i := v]) = length s1"
      using "1.prems" by simp
    from "1.IH" [OF True v len]
    obtain r' where r': "apply_loop t s1 (Suc i) (result[i := v]) = Some r'"
      and lr: "length r' = length s1"
      and before: "\<forall>j<Suc i. r' ! j = result[i := v] ! j"
      and after: "\<forall>j. Suc i \<le> j \<longrightarrow> j < length s1 \<longrightarrow> try_apply t (s1 ! j) = Some (r' ! j)"
      by blast
    have run: "apply_loop t s1 i result = Some r'"
      using apply_loop_step [OF True v] r' by simp
    have at_i: "r' ! i = v"
      using before True "1.prems" by simp
    have low: "\<forall>j<i. r' ! j = result ! j"
      using before by simp
    have high: "\<forall>j. i \<le> j \<longrightarrow> j < length s1 \<longrightarrow> try_apply t (s1 ! j) = Some (r' ! j)"
    proof (intro allI impI)
      fix j assume "i \<le> j" "j < length s1"
      show "try_apply t (s1 ! j) = Some (r' ! j)"
      proof (cases "j = i")
        case True
        then show ?thesis using v at_i by simp
      next
        case False
        then have "Suc i \<le> j" using \<open>i \<le> j\<close> by simp
        then show ?thesis using after \<open>j < length s1\<close> by blast
      qed
    qed
    show ?thesis using run lr low high by blast
  qed
qed

lemma apply_loop_run:
  assumes "length r = length s1"
  shows "\<exists>r'. apply_loop t s1 0 r = Some r' \<and> length r' = length s1 \<and>
     (\<forall>j<length s1. try_apply t (s1 ! j) = Some (r' ! j))"
proof -
  from apply_loop_inv [OF assms, of t 0]
  obtain r' where a: "apply_loop t s1 0 r = Some r'" and b: "length r' = length s1"
    and c: "\<forall>j. 0 \<le> j \<longrightarrow> j < length s1 \<longrightarrow> try_apply t (s1 ! j) = Some (r' ! j)"
    by (elim exE conjE)
  have "\<forall>j<length s1. try_apply t (s1 ! j) = Some (r' ! j)"
    using c by simp
  with a b show ?thesis by simp
qed

subsection \<open>Vectors and the constructor\<close>

lemma dot_self_nonneg: "0 \<le> dot v v"
  by (cases v) simp

lemma dot_self_zero_iff: "dot v v = 0 \<longleftrightarrow> v = (0, 0, 0)"
proof (cases v)
  case (fields a b c)
  have "a * a + b * b + c * c = 0 \<longleftrightarrow> a = 0 \<and> b = 0 \<and> c = 0"
  proof
    assume h: "a * a + b * b + c * c = 0"
    have "0 \<le> a * a" "0 \<le> b * b" "0 \<le> c * c" by simp_all
    with h have "a * a = 0" "b * b = 0" "c * c = 0" by linarith+
    then show "a = 0 \<and> b = 0 \<and> c = 0" by simp
  next
    assume "a = 0 \<and> b = 0 \<and> c = 0"
    then show "a * a + b * b + c * c = 0" by simp
  qed
  with fields show ?thesis by simp
qed

lemma length_vec3_zero_iff: "length_vec3 v = 0 \<longleftrightarrow> v = (0, 0, 0)"
  by (simp add: length_vec3_def dot_self_zero_iff)

lemma length_vec3_nonneg: "0 \<le> length_vec3 v"
  by (simp add: length_vec3_def dot_self_nonneg)

lemma length_vec3_pos: "v \<noteq> (0, 0, 0) \<Longrightarrow> 0 < length_vec3 v"
  using length_vec3_nonneg [of v] length_vec3_zero_iff [of v] by linarith

lemma div_vec3_Some: "r \<noteq> 0 \<Longrightarrow> div_vec3 v r = Some (scalar_mul (1 / r) v)"
  by (cases v) (simp add: double_div_def)

lemma div_vec3_None: "div_vec3 v 0 = None"
  by (cases v) (simp add: double_div_def)

lemma div_vec3_eq_Some:
  "div_vec3 v r = Some w \<longleftrightarrow> r \<noteq> 0 \<and> w = scalar_mul (1 / r) v"
proof (cases "r = 0")
  case True
  then show ?thesis by (simp add: div_vec3_None)
next
  case False
  then show ?thesis by (auto simp: div_vec3_Some)
qed

lemma normalize_eq_Some:
  "normalize v = Some u \<longleftrightarrow> v \<noteq> (0, 0, 0) \<and> u = scalar_mul (1 / length_vec3 v) v"
  by (simp add: normalize_def div_vec3_eq_Some length_vec3_zero_iff)

lemma dot_scalar_mul_left: "dot (scalar_mul k v) w = k * dot v w"
  by (cases v, cases w) (simp add: algebra_simps)

lemma dot_scalar_mul_right: "dot w (scalar_mul k v) = k * dot w v"
  by (cases v, cases w) (simp add: algebra_simps)

lemma length_scalar_mul: "length_vec3 (scalar_mul k v) = \<bar>k\<bar> * length_vec3 v"
proof -
  have "dot (scalar_mul k v) (scalar_mul k v) = (k * k) * dot v v"
    by (simp add: dot_scalar_mul_left dot_scalar_mul_right)
  then show ?thesis
    by (simp add: length_vec3_def real_sqrt_mult)
qed

lemma normalize_unit:
  assumes "normalize v = Some u"
  shows "length_vec3 u = 1"
proof -
  from assms have nz: "v \<noteq> (0, 0, 0)" and u: "u = scalar_mul (1 / length_vec3 v) v"
    by (simp_all add: normalize_eq_Some)
  have pos: "0 < length_vec3 v" using nz by (rule length_vec3_pos)
  have "length_vec3 u = \<bar>1 / length_vec3 v\<bar> * length_vec3 v"
    unfolding u by (rule length_scalar_mul)
  also have "\<dots> = 1" using pos by simp
  finally show ?thesis .
qed

lemma init_eq_Some:
  "FromBeamVectorToDetector_init dcs pixel_size origin0 distance0 = Some t \<longleftrightarrow>
     get_x_axis dcs \<noteq> (0, 0, 0) \<and> get_y_axis dcs \<noteq> (0, 0, 0) \<and> get_normal dcs \<noteq> (0, 0, 0) \<and>
     fst pixel_size \<noteq> 0 \<and> snd pixel_size \<noteq> 0 \<and>
     t = \<lparr>x_axis = scalar_mul (1 / fst pixel_size)
                  (scalar_mul (1 / length_vec3 (get_x_axis dcs)) (get_x_axis dcs)),
          y_axis = scalar_mul (1 / snd pixel_size)
                  (scalar_mul (1 / length_vec3 (get_y_axis dcs)) (get_y_axis dcs)),
          normal = scalar_mul (1 / length_vec3 (get_normal dcs)) (get_normal dcs),
          origin = origin0, distance = distance0\<rparr>"
  by (auto simp: FromBeamVectorToDetector_init_def bind_eq_Some_conv normalize_eq_Some div_vec3_eq_Some)

subsection \<open>The scalar and the array apply\<close>

lemma scalar_apply_cases:
  "apply_vec3 t s = Some (Inl GeometryError) \<or> (\<exists>v. apply_vec3 t s = Some (Inr v))"
  by (cases "distance t * dot s (normal t) > 0") (simp_all add: apply_vec3_ok apply_vec3_error)

lemma try_apply_Inr: "apply_vec3 t s = Some (Inr v) \<Longrightarrow> try_apply t s = Some v"
  by (simp add: try_apply_def)

lemma try_apply_Inl: "apply_vec3 t s = Some (Inl e) \<Longrightarrow> try_apply t s = Some (-1, -1)"
  by (simp add: try_apply_def)

lemma apply_flex_run:
  "\<exists>r. apply_flex t s1 = Some r \<and> length r = length s1 \<and>
       (\<forall>j<length s1. try_apply t (s1 ! j) = Some (r ! j))"
  unfolding apply_flex_def by (rule apply_loop_run) simp

lemma apply_loop_start:
  assumes "length r = length s1" and "length r2 = length s1"
  shows "apply_loop t s1 0 r = apply_loop t s1 0 r2"
proof -
  from apply_loop_run [OF assms(1), of t]
  obtain a where a1: "apply_loop t s1 0 r = Some a" and a2: "length a = length s1"
    and a3: "\<forall>j<length s1. try_apply t (s1 ! j) = Some (a ! j)"
    by (elim exE conjE)
  from apply_loop_run [OF assms(2), of t]
  obtain b where b1: "apply_loop t s1 0 r2 = Some b" and b2: "length b = length s1"
    and b3: "\<forall>j<length s1. try_apply t (s1 ! j) = Some (b ! j)"
    by (elim exE conjE)
  have "a = b"
  proof (rule nth_equalityI)
    show "length a = length b" using a2 b2 by simp
  next
    fix j assume "j < length a"
    then have j: "j < length s1" using a2 by simp
    have "try_apply t (s1 ! j) = Some (a ! j)" using a3 j by simp
    moreover have "try_apply t (s1 ! j) = Some (b ! j)" using b3 j by simp
    ultimately show "a ! j = b ! j" by simp
  qed
  then show ?thesis using a1 b1 by simp
qed

lemma apply_vec3_origin:
  assumes "apply_vec3 (t\<lparr>origin := (0, 0)\<rparr>) s1 = Some (Inr (px, py))"
  shows "apply_vec3 (t\<lparr>origin := (ox, oy)\<rparr>) s1 = Some (Inr (px + ox, py + oy))"
proof (cases "distance t * dot s1 (normal t) > 0")
  case True
  then have g0: "distance (t\<lparr>origin := (0, 0)\<rparr>) * dot s1 (normal (t\<lparr>origin := (0, 0)\<rparr>)) > 0"
    and g1: "distance (t\<lparr>origin := (ox, oy)\<rparr>) * dot s1 (normal (t\<lparr>origin := (ox, oy)\<rparr>)) > 0"
    by simp_all
  from assms have p: "px = distance t * dot s1 (x_axis t) / dot s1 (normal t)"
      "py = distance t * dot s1 (y_axis t) / dot s1 (normal t)"
    unfolding apply_vec3_ok [OF g0] by simp_all
  show ?thesis
    unfolding apply_vec3_ok [OF g1] by (simp add: p)
next
  case False
  then have "\<not> distance (t\<lparr>origin := (0, 0)\<rparr>) * dot s1 (normal (t\<lparr>origin := (0, 0)\<rparr>)) > 0"
    by simp
  then have "apply_vec3 (t\<lparr>origin := (0, 0)\<rparr>) s1 = Some (Inl GeometryError)"
    by (rule apply_vec3_error)
  with assms show ?thesis by simp
qed

lemma default_guard:
  "\<not> distance (FromBeamVectorToDetector_default xa ya n og) *
       dot s (normal (FromBeamVectorToDetector_default xa ya n og)) > 0"
  by (simp add: FromBeamVectorToDetector_default_def)

lemma init_world_axes:
  "p \<noteq> 0 \<Longrightarrow> FromBeamVectorToDetector_init world_axes (p, p) og D =
     Some \<lparr>x_axis = (1 / p, 0, 0), y_axis = (0, 1 / p, 0), normal = (0, 0, 1), origin = og, distance = D\<rparr>"
  by (simp add: init_eq_Some world_axes_def length_vec3_def)

lemma init_origin:
  assumes "FromBeamVectorToDetector_init dcs pixel_size og d = Some t"
  shows "FromBeamVectorToDetector_init dcs pixel_size og' d = Some (t\<lparr>origin := og'\<rparr>)"
  using assms by (simp add: init_eq_Some)

lemma spec_divided_by_scalar_mul: "spec_divided_by v p = scalar_mul (1 / p) v"
  by (cases v) simp

lemma spec_unit_normalized_length:
  "v \<noteq> (0, 0, 0) \<Longrightarrow> length_vec3 (spec_unit_normalized v) = 1"
  by (rule normalize_unit [of v]) (simp add: normalize_eq_Some spec_unit_normalized_def)

lemma sqrt_25: "sqrt 25 = 5"
  by (rule real_sqrt_unique) simp_all

lemma sqrt_4: "sqrt 4 = 2"
  by (rule real_sqrt_unique) simp_all

lemma zero_less_mult_pos_iff_aux:
  fixes l x :: real
  assumes "0 < l"
  shows "(0 < l * x) = (0 < x)"
  using assms by (simp add: zero_less_mult_iff)

subsection \<open>The scalar apply over the two arithmetics\<close>

lemma dot_real_ops: "dot_ops real_ops a b = dot a b"
  by (cases a, cases b) (simp add: real_ops_def)

lemma in_arith3_id: "in_arith3 (\<lambda>x. x) v = v"
  by (cases v) simp

lemma apply_vec3_real_ops:
  "apply_vec3 t s1 = Some (apply_vec3_ops real_ops (in_arith (\<lambda>x. x) t) s1)"
proof (cases "distance t * dot s1 (normal t) > 0")
  case True
  then show ?thesis
    by (simp add: apply_vec3_ok apply_vec3_ops_def in_arith_def in_arith3_id dot_real_ops Let_def)
       (simp add: real_ops_def)
next
  case False
  then show ?thesis
    by (simp add: apply_vec3_error apply_vec3_ops_def in_arith_def in_arith3_id dot_real_ops Let_def)
       (simp add: real_ops_def)
qed



section \<open>The claims\<close>

subsection \<open>C1: the projection formula\<close>



subsection \<open>C2: the one failure of the scalar apply\<close>




subsection \<open>C3: the array apply is total and index-aligned\<close>

text \<open>
  Claim C3. For every transform and every list of beam vectors the array apply returns
  a list of the same length. At every index the scalar apply either throws the geometry
  error or returns a value; where it returns \<open>v\<close> the output holds \<open>v\<close>, and where it
  throws the output holds \<open>(-1, -1)\<close>.
\<close>

theorem batch_apply_aligned:
  "\<exists>r. apply_flex t s1 = Some r \<and> length r = length s1 \<and>
     (\<forall>i<length s1.
        (apply_vec3 t (s1 ! i) = Some (Inl GeometryError) \<or>
           (\<exists>v. apply_vec3 t (s1 ! i) = Some (Inr v))) \<and>
        (\<forall>v. apply_vec3 t (s1 ! i) = Some (Inr v) \<longrightarrow> r ! i = v) \<and>
        (apply_vec3 t (s1 ! i) = Some (Inl GeometryError) \<longrightarrow> r ! i = (-1, -1)))"
proof -
  from apply_flex_run [of t s1]
  obtain r where r1: "apply_flex t s1 = Some r" and r2: "length r = length s1"
    and r3: "\<forall>j<length s1. try_apply t (s1 ! j) = Some (r ! j)"
    by (elim exE conjE)
  have "\<forall>i<length s1.
        (apply_vec3 t (s1 ! i) = Some (Inl GeometryError) \<or>
           (\<exists>v. apply_vec3 t (s1 ! i) = Some (Inr v))) \<and>
        (\<forall>v. apply_vec3 t (s1 ! i) = Some (Inr v) \<longrightarrow> r ! i = v) \<and>
        (apply_vec3 t (s1 ! i) = Some (Inl GeometryError) \<longrightarrow> r ! i = (-1, -1))"
  proof (intro allI impI conjI)
    fix i assume "i < length s1"
    show "apply_vec3 t (s1 ! i) = Some (Inl GeometryError) \<or>
           (\<exists>v. apply_vec3 t (s1 ! i) = Some (Inr v))"
      by (rule scalar_apply_cases)
  next
    fix i v assume i: "i < length s1" and v: "apply_vec3 t (s1 ! i) = Some (Inr v)"
    have "try_apply t (s1 ! i) = Some (r ! i)" using r3 i by simp
    with try_apply_Inr [OF v] show "r ! i = v" by simp
  next
    fix i assume i: "i < length s1" and e: "apply_vec3 t (s1 ! i) = Some (Inl GeometryError)"
    have "try_apply t (s1 ! i) = Some (r ! i)" using r3 i by simp
    with try_apply_Inl [OF e] show "r ! i = (-1, -1)" by simp
  qed
  with r1 r2 show ?thesis by (intro exI conjI)
qed

text \<open>
  A list of one failing and one valid beam vector, at a transform with a nonzero
  origin.
\<close>

theorem batch_apply_aligned_witness:
  "\<exists>r. apply_flex \<lparr>x_axis = (1, 0, 0), y_axis = (0, 1, 0), normal = (0, 0, 1),
                  origin = (5, 7), distance = 10\<rparr> [(0, 0, -1), (1, 0, 2)] = Some r \<and>
       length r = 2 \<and> r ! 0 = (-1, -1) \<and> r ! 1 = (10, 7)"
proof -
  let ?t = "\<lparr>x_axis = (1, 0, 0), y_axis = (0, 1, 0), normal = (0, 0, 1),
             origin = (5, 7), distance = 10\<rparr> :: FromBeamVectorToDetector"
  let ?s = "[(0, 0, -1), (1, 0, 2)] :: vec3 list"
  from batch_apply_aligned [of ?t ?s]
  obtain r where r1: "apply_flex ?t ?s = Some r" and r2: "length r = length ?s"
    and r3: "\<forall>i<length ?s.
        (apply_vec3 ?t (?s ! i) = Some (Inl GeometryError) \<or>
           (\<exists>v. apply_vec3 ?t (?s ! i) = Some (Inr v))) \<and>
        (\<forall>v. apply_vec3 ?t (?s ! i) = Some (Inr v) \<longrightarrow> r ! i = v) \<and>
        (apply_vec3 ?t (?s ! i) = Some (Inl GeometryError) \<longrightarrow> r ! i = (-1, -1))"
    by (elim exE conjE)
  have e0: "apply_vec3 ?t (?s ! 0) = Some (Inl GeometryError)"
    by (simp add: apply_vec3_def)
  have e1: "apply_vec3 ?t (?s ! 1) = Some (Inr (10, 7))"
    by (simp add: apply_vec3_def double_div_def)
  have "r ! 0 = (-1, -1)" using r3 e0 by simp
  moreover have "r ! 1 = (10, 7)" using r3 e1 by simp
  moreover have "length r = 2" using r2 by simp
  ultimately show ?thesis using r1 by (intro exI conjI)
qed

subsection \<open>C4: what the constructor stores\<close>

text \<open>
  Claim C4. The constructor yields a transform exactly when the three axes are nonzero
  vectors and the two pixel sizes are nonzero numbers (otherwise it divides by zero).
  The transform it yields holds the unit-normalized x-axis divided component-wise by
  \<open>pixel_size[0]\<close>, the unit-normalized y-axis divided component-wise by
  \<open>pixel_size[1]\<close>, the unit-normalized normal, and the origin and the distance it was
  given. The unit-normalized axes have length \<open>1\<close>.
\<close>

theorem constructor_stores:
  "((\<exists>t'. FromBeamVectorToDetector_init dcs pixel_size origin0 distance0 = Some t') =
      (get_x_axis dcs \<noteq> (0, 0, 0) \<and> get_y_axis dcs \<noteq> (0, 0, 0) \<and>
       get_normal dcs \<noteq> (0, 0, 0) \<and> fst pixel_size \<noteq> 0 \<and> snd pixel_size \<noteq> 0)) \<and>
   (FromBeamVectorToDetector_init dcs pixel_size origin0 distance0 = Some t \<longrightarrow>
      x_axis t = spec_divided_by (spec_unit_normalized (get_x_axis dcs)) (fst pixel_size) \<and>
      y_axis t = spec_divided_by (spec_unit_normalized (get_y_axis dcs)) (snd pixel_size) \<and>
      normal t = spec_unit_normalized (get_normal dcs) \<and>
      length_vec3 (spec_unit_normalized (get_x_axis dcs)) = 1 \<and>
      length_vec3 (spec_unit_normalized (get_y_axis dcs)) = 1 \<and>
      length_vec3 (normal t) = 1 \<and>
      origin t = origin0 \<and> distance t = distance0)"
proof (intro conjI impI)
  show "(\<exists>t'. FromBeamVectorToDetector_init dcs pixel_size origin0 distance0 = Some t') =
      (get_x_axis dcs \<noteq> (0, 0, 0) \<and> get_y_axis dcs \<noteq> (0, 0, 0) \<and>
       get_normal dcs \<noteq> (0, 0, 0) \<and> fst pixel_size \<noteq> 0 \<and> snd pixel_size \<noteq> 0)"
    by (simp add: init_eq_Some)
next
  assume c: "FromBeamVectorToDetector_init dcs pixel_size origin0 distance0 = Some t"
  then have nz: "get_x_axis dcs \<noteq> (0, 0, 0)" "get_y_axis dcs \<noteq> (0, 0, 0)"
      "get_normal dcs \<noteq> (0, 0, 0)"
    and t: "t = \<lparr>x_axis = scalar_mul (1 / fst pixel_size)
                  (scalar_mul (1 / length_vec3 (get_x_axis dcs)) (get_x_axis dcs)),
          y_axis = scalar_mul (1 / snd pixel_size)
                  (scalar_mul (1 / length_vec3 (get_y_axis dcs)) (get_y_axis dcs)),
          normal = scalar_mul (1 / length_vec3 (get_normal dcs)) (get_normal dcs),
          origin = origin0, distance = distance0\<rparr>"
    by (simp_all add: init_eq_Some)
  show "x_axis t = spec_divided_by (spec_unit_normalized (get_x_axis dcs)) (fst pixel_size)"
    by (simp add: t spec_divided_by_scalar_mul spec_unit_normalized_def)
  show "y_axis t = spec_divided_by (spec_unit_normalized (get_y_axis dcs)) (snd pixel_size)"
    by (simp add: t spec_divided_by_scalar_mul spec_unit_normalized_def)
  show n: "normal t = spec_unit_normalized (get_normal dcs)"
    by (simp add: t spec_unit_normalized_def)
  show "length_vec3 (spec_unit_normalized (get_x_axis dcs)) = 1"
    using nz(1) by (rule spec_unit_normalized_length)
  show "length_vec3 (spec_unit_normalized (get_y_axis dcs)) = 1"
    using nz(2) by (rule spec_unit_normalized_length)
  show "length_vec3 (normal t) = 1"
    unfolding n using nz(3) by (rule spec_unit_normalized_length)
  show "origin t = origin0" by (simp add: t)
  show "distance t = distance0" by (simp add: t)
qed

text \<open>
  Axes of lengths 5, 2 and 5, pixel size \<open>(2, 4)\<close>, origin \<open>(1, 2)\<close> and distance
  \<open>50\<close>.
\<close>

theorem constructor_stores_witness:
  "\<exists>t. FromBeamVectorToDetector_init
          \<lparr>get_x_axis = (3, 0, 4), get_y_axis = (0, 2, 0), get_normal = (4, 0, -3)\<rparr>
          (2, 4) (1, 2) 50 = Some t \<and>
       x_axis t = (3 / 10, 0, 2 / 5) \<and> y_axis t = (0, 1 / 4, 0) \<and>
       normal t = (4 / 5, 0, - (3 / 5)) \<and> length_vec3 (normal t) = 1 \<and>
       origin t = (1, 2) \<and> distance t = 50"
proof -
  let ?dcs = "\<lparr>get_x_axis = (3, 0, 4), get_y_axis = (0, 2, 0), get_normal = (4, 0, -3)\<rparr>
              :: DetectorCoordinateSystem"
  have lx: "length_vec3 (3, 0, 4) = 5" by (simp add: length_vec3_def sqrt_25)
  have ly: "length_vec3 (0, 2, 0) = 2" by (simp add: length_vec3_def sqrt_4)
  have ln: "length_vec3 (4, 0, -3) = 5" by (simp add: length_vec3_def sqrt_25)
  have "\<exists>t. FromBeamVectorToDetector_init ?dcs (2, 4) (1, 2) 50 = Some t"
    using constructor_stores [of ?dcs "(2, 4)" "(1, 2)" 50] by simp
  then obtain t where t: "FromBeamVectorToDetector_init ?dcs (2, 4) (1, 2) 50 = Some t" ..
  note c = constructor_stores [of ?dcs "(2, 4)" "(1, 2)" 50 t, THEN conjunct2, THEN mp, OF t]
  have f1: "x_axis t = spec_divided_by (spec_unit_normalized (3, 0, 4)) 2"
    using c by simp
  have f2: "y_axis t = spec_divided_by (spec_unit_normalized (0, 2, 0)) 4"
    using c by simp
  have f3: "normal t = spec_unit_normalized (4, 0, -3)"
    using c by simp
  have f4: "length_vec3 (normal t) = 1"
    using c by (elim conjE)
  have f5: "origin t = (1, 2)"
    using c by simp
  have f6: "distance t = 50"
    using c by simp
  have "x_axis t = (3 / 10, 0, 2 / 5)"
    by (simp add: f1 spec_unit_normalized_def lx)
  moreover have "y_axis t = (0, 1 / 4, 0)"
    by (simp add: f2 spec_unit_normalized_def ly)
  moreover have "normal t = (4 / 5, 0, - (3 / 5))"
    by (simp add: f3 spec_unit_normalized_def ln)
  ultimately show ?thesis using t f4 f5 f6 by (intro exI conjI)
qed

subsection \<open>C5: scenarios A, C and D of the spec\<close>

text \<open>
  Claim C5. The transform constructed from the world axes, pixel size \<open>(1, 1)\<close>,
  origin \<open>(0, 0)\<close> and distance \<open>100\<close> maps \<open>(0, 0, 1)\<close> to \<open>(0, 0)\<close>, throws
  the geometry error on \<open>(0, 0, -1)\<close>, and its array apply maps
  \<open>[(0, 0, 1), (0, 0, -1), (1, 1, 1)]\<close> to \<open>[(0, 0), (-1, -1), (100, 100)]\<close>.
\<close>

theorem scenarios_A_C_D:
  "\<exists>t. FromBeamVectorToDetector_init world_axes (1, 1) (0, 0) 100 = Some t \<and>
       apply_vec3 t (0, 0, 1) = Some (Inr (0, 0)) \<and>
       apply_vec3 t (0, 0, -1) = Some (Inl GeometryError) \<and>
       apply_flex t [(0, 0, 1), (0, 0, -1), (1, 1, 1)] = Some [(0, 0), (-1, -1), (100, 100)]"
proof -
  let ?t = "\<lparr>x_axis = (1, 0, 0), y_axis = (0, 1, 0), normal = (0, 0, 1),
             origin = (0, 0), distance = 100\<rparr> :: FromBeamVectorToDetector"
  have i: "FromBeamVectorToDetector_init world_axes (1, 1) (0, 0) 100 = Some ?t"
    using init_world_axes [of 1 "(0, 0)" 100] by simp
  have a: "apply_vec3 ?t (0, 0, 1) = Some (Inr (0, 0))"
    by (simp add: apply_vec3_def double_div_def)
  have c: "apply_vec3 ?t (0, 0, -1) = Some (Inl GeometryError)"
    by (simp add: apply_vec3_def)
  have b: "apply_vec3 ?t (1, 1, 1) = Some (Inr (100, 100))"
    by (simp add: apply_vec3_def double_div_def)
  have d: "apply_flex ?t [(0, 0, 1), (0, 0, -1), (1, 1, 1)] = Some [(0, 0), (-1, -1), (100, 100)]"
    by (simp add: apply_flex_def apply_loop.simps try_apply_def a b c)
  from i a c d show ?thesis by (intro exI conjI)
qed

subsection \<open>C6: only the direction of the beam vector matters\<close>

text \<open>
  Claim C6. For \<open>l > 0\<close> the check \<open>distance * dot(l * s1, normal) > 0\<close> holds exactly
  when \<open>distance * dot(s1, normal) > 0\<close> does; when it holds, the scalar apply returns
  the same value on \<open>l * s1\<close> and on \<open>s1\<close>. The two applies agree in every case, since
  both throw when the check fails.
\<close>

theorem positive_scaling_invariant:
  assumes "0 < l"
  shows "((distance t * dot (scalar_mul l s1) (normal t) > 0) =
            (distance t * dot s1 (normal t) > 0)) \<and>
         (distance t * dot s1 (normal t) > 0 \<longrightarrow>
            (\<exists>v. apply_vec3 t s1 = Some (Inr v) \<and>
                 apply_vec3 t (scalar_mul l s1) = Some (Inr v))) \<and>
         apply_vec3 t (scalar_mul l s1) = apply_vec3 t s1"
proof -
  have g: "(distance t * dot (scalar_mul l s1) (normal t) > 0) =
            (distance t * dot s1 (normal t) > 0)"
  proof -
    have "distance t * dot (scalar_mul l s1) (normal t) = l * (distance t * dot s1 (normal t))"
      by (simp add: dot_scalar_mul_left)
    moreover have "(0 < l * (distance t * dot s1 (normal t))) = (0 < distance t * dot s1 (normal t))"
      using assms by (rule zero_less_mult_pos_iff_aux)
    ultimately show ?thesis by (simp only:)
  qed
  have e: "apply_vec3 t (scalar_mul l s1) = apply_vec3 t s1"
  proof (cases "distance t * dot s1 (normal t) > 0")
    case True
    then have nz: "dot s1 (normal t) \<noteq> 0" by (rule guard_nonzero)
    have q: "distance t * (l * dot s1 a) / (l * dot s1 (normal t)) =
             distance t * dot s1 a / dot s1 (normal t)" for a
      using assms nz by simp
    from True g have "distance t * dot (scalar_mul l s1) (normal t) > 0" by simp
    then have "apply_vec3 t (scalar_mul l s1) =
       Some (Inr (fst (origin t) + distance t * dot (scalar_mul l s1) (x_axis t) / dot (scalar_mul l s1) (normal t),
                  snd (origin t) + distance t * dot (scalar_mul l s1) (y_axis t) / dot (scalar_mul l s1) (normal t)))"
      by (rule apply_vec3_ok)
    also have "\<dots> = apply_vec3 t s1"
      by (simp only: dot_scalar_mul_left q apply_vec3_ok [OF True])
    finally show ?thesis .
  next
    case False
    with g have "\<not> distance t * dot (scalar_mul l s1) (normal t) > 0" by simp
    then show ?thesis using False by (simp add: apply_vec3_error)
  qed
  have s: "distance t * dot s1 (normal t) > 0 \<longrightarrow>
            (\<exists>v. apply_vec3 t s1 = Some (Inr v) \<and>
                 apply_vec3 t (scalar_mul l s1) = Some (Inr v))"
    using e by (simp add: apply_vec3_ok)
  from g s e show ?thesis by (intro conjI)
qed

text \<open>
  The beam vector \<open>(1, 2, 5)\<close> and three times it.
\<close>

theorem positive_scaling_invariant_witness:
  "(0::real) < 3 \<and>
   apply_vec3 \<lparr>x_axis = (1, 0, 0), y_axis = (0, 1, 0), normal = (0, 0, 1),
               origin = (2, 3), distance = 10\<rparr> (scalar_mul 3 (1, 2, 5)) = Some (Inr (4, 7)) \<and>
   apply_vec3 \<lparr>x_axis = (1, 0, 0), y_axis = (0, 1, 0), normal = (0, 0, 1),
               origin = (2, 3), distance = 10\<rparr> (1, 2, 5) = Some (Inr (4, 7))"
proof -
  let ?t = "\<lparr>x_axis = (1, 0, 0), y_axis = (0, 1, 0), normal = (0, 0, 1),
             origin = (2, 3), distance = 10\<rparr> :: FromBeamVectorToDetector"
  have l: "(0::real) < 3" by simp
  have a: "apply_vec3 ?t (1, 2, 5) = Some (Inr (4, 7))"
    by (simp add: apply_vec3_def double_div_def)
  from positive_scaling_invariant [OF l, of ?t "(1, 2, 5)"]
  have "apply_vec3 ?t (scalar_mul 3 (1, 2, 5)) = apply_vec3 ?t (1, 2, 5)"
    by (elim conjE)
  with a have "apply_vec3 ?t (scalar_mul 3 (1, 2, 5)) = Some (Inr (4, 7))" by simp
  with l a show ?thesis by (intro conjI)
qed

subsection \<open>C7: the origin shifts the result\<close>

text \<open>
  Claim C7. Take two transforms that differ only in the origin, \<open>(0, 0)\<close> for the first
  and \<open>(ox, oy)\<close> for the second. Where the scalar apply of the first returns
  \<open>(px, py)\<close>, the scalar apply of the second returns \<open>(px + ox, py + oy)\<close>. The
  statement is given for two values of the class that differ in the field, and for two
  transforms constructed from the same inputs but the origin.
\<close>

theorem origin_shift:
  "(apply_vec3 (t\<lparr>origin := (0, 0)\<rparr>) s1 = Some (Inr (px, py)) \<longrightarrow>
      apply_vec3 (t\<lparr>origin := (ox, oy)\<rparr>) s1 = Some (Inr (px + ox, py + oy))) \<and>
   (FromBeamVectorToDetector_init dcs pixel_size (0, 0) d = Some t0 \<and>
    FromBeamVectorToDetector_init dcs pixel_size (ox, oy) d = Some t1 \<and>
    apply_vec3 t0 s1 = Some (Inr (px, py)) \<longrightarrow>
      apply_vec3 t1 s1 = Some (Inr (px + ox, py + oy)))"
proof (intro conjI impI)
  assume "apply_vec3 (t\<lparr>origin := (0, 0)\<rparr>) s1 = Some (Inr (px, py))"
  then show "apply_vec3 (t\<lparr>origin := (ox, oy)\<rparr>) s1 = Some (Inr (px + ox, py + oy))"
    by (rule apply_vec3_origin)
next
  assume h: "FromBeamVectorToDetector_init dcs pixel_size (0, 0) d = Some t0 \<and>
    FromBeamVectorToDetector_init dcs pixel_size (ox, oy) d = Some t1 \<and>
    apply_vec3 t0 s1 = Some (Inr (px, py))"
  then have i0: "FromBeamVectorToDetector_init dcs pixel_size (0, 0) d = Some t0"
    and i1: "FromBeamVectorToDetector_init dcs pixel_size (ox, oy) d = Some t1"
    and a: "apply_vec3 t0 s1 = Some (Inr (px, py))"
    by simp_all
  have "Some t1 = Some (t0\<lparr>origin := (ox, oy)\<rparr>)"
    using init_origin [OF i0, of "(ox, oy)"] i1 by simp
  then have t1: "t1 = t0\<lparr>origin := (ox, oy)\<rparr>" by simp
  have "Some t0 = Some (t0\<lparr>origin := (0, 0)\<rparr>)"
    using init_origin [OF i0, of "(0, 0)"] i0 by simp
  then have t0: "t0\<lparr>origin := (0, 0)\<rparr> = t0" by simp
  from a t0 have "apply_vec3 (t0\<lparr>origin := (0, 0)\<rparr>) s1 = Some (Inr (px, py))" by simp
  then have "apply_vec3 (t0\<lparr>origin := (ox, oy)\<rparr>) s1 = Some (Inr (px + ox, py + oy))"
    by (rule apply_vec3_origin)
  then show "apply_vec3 t1 s1 = Some (Inr (px + ox, py + oy))"
    by (simp add: t1)
qed

text \<open>
  Two transforms constructed from the world axes with pixel size \<open>(2, 2)\<close> and
  distance \<open>10\<close>, the second with origin \<open>(30, 40)\<close>.
\<close>

theorem origin_shift_witness:
  "\<exists>t0 t1. FromBeamVectorToDetector_init world_axes (2, 2) (0, 0) 10 = Some t0 \<and>
     FromBeamVectorToDetector_init world_axes (2, 2) (30, 40) 10 = Some t1 \<and>
     apply_vec3 t0 (1, 2, 5) = Some (Inr (1, 2)) \<and>
     apply_vec3 t1 (1, 2, 5) = Some (Inr (1 + 30, 2 + 40))"
proof -
  let ?t0 = "\<lparr>x_axis = (1 / 2, 0, 0), y_axis = (0, 1 / 2, 0), normal = (0, 0, 1),
              origin = (0, 0), distance = 10\<rparr> :: FromBeamVectorToDetector"
  let ?t1 = "\<lparr>x_axis = (1 / 2, 0, 0), y_axis = (0, 1 / 2, 0), normal = (0, 0, 1),
              origin = (30, 40), distance = 10\<rparr> :: FromBeamVectorToDetector"
  have i0: "FromBeamVectorToDetector_init world_axes (2, 2) (0, 0) 10 = Some ?t0"
    by (rule init_world_axes) simp
  have i1: "FromBeamVectorToDetector_init world_axes (2, 2) (30, 40) 10 = Some ?t1"
    by (rule init_world_axes) simp
  have a: "apply_vec3 ?t0 (1, 2, 5) = Some (Inr (1, 2))"
    by (simp add: apply_vec3_def double_div_def)
  have "apply_vec3 ?t1 (1, 2, 5) = Some (Inr (1 + 30, 2 + 40))"
    by (rule origin_shift [where ox = 30 and oy = 40 and dcs = world_axes
          and pixel_size = "(2, 2)" and d = 10 and ?t0.0 = ?t0 and ?t1.0 = ?t1
          and ?s1.0 = "(1, 2, 5)" and px = 1 and py = 2, THEN conjunct2, THEN mp])
       (intro conjI i0 i1 a)
  with i0 i1 a show ?thesis by (intro exI conjI)
qed

subsection \<open>C8: the pixel size scales the result\<close>

text \<open>
  Claim C8. Take the transform constructed from the world axes, origin \<open>(0, 0)\<close> and
  distance \<open>D\<close> with pixel size \<open>(1, 1)\<close>, and the one constructed with pixel size
  \<open>(p, p)\<close>. Where the scalar apply of the first returns \<open>(u, v)\<close>, the scalar apply of
  the second returns \<open>(1 / p * u, 1 / p * v)\<close>.
\<close>

theorem pixel_scaling:
  assumes "FromBeamVectorToDetector_init world_axes (1, 1) (0, 0) D = Some t1"
    and "FromBeamVectorToDetector_init world_axes (p, p) (0, 0) D = Some tp"
    and "apply_vec3 t1 s1 = Some (Inr (u, v))"
  shows "apply_vec3 tp s1 = Some (Inr (1 / p * u, 1 / p * v))"
proof -
  obtain a b c where s1: "s1 = (a, b, c)" by (cases s1)
  from assms(2) have p: "p \<noteq> 0" by (simp add: init_eq_Some)
  have t1: "t1 = \<lparr>x_axis = (1 / 1, 0, 0), y_axis = (0, 1 / 1, 0), normal = (0, 0, 1),
                  origin = (0, 0), distance = D\<rparr>"
    using assms(1) init_world_axes [of 1 "(0, 0)" D] by simp
  have tp: "tp = \<lparr>x_axis = (1 / p, 0, 0), y_axis = (0, 1 / p, 0), normal = (0, 0, 1),
                  origin = (0, 0), distance = D\<rparr>"
    using assms(2) init_world_axes [OF p, of "(0, 0)" D] by simp
  have g: "D * c > 0"
  proof (rule ccontr)
    assume "\<not> D * c > 0"
    then have "\<not> distance t1 * dot s1 (normal t1) > 0" by (simp add: t1 s1)
    then have "apply_vec3 t1 s1 = Some (Inl GeometryError)" by (rule apply_vec3_error)
    with assms(3) show False by simp
  qed
  then have c: "c \<noteq> 0" by (rule guard_nonzero)
  have g1: "distance t1 * dot s1 (normal t1) > 0" using g by (simp add: t1 s1)
  have gp: "distance tp * dot s1 (normal tp) > 0" using g by (simp add: tp s1)
  from assms(3) have uv: "u = D * a / c" "v = D * b / c"
    unfolding apply_vec3_ok [OF g1] by (simp_all add: t1 s1)
  show ?thesis
    unfolding apply_vec3_ok [OF gp] by (simp add: tp s1 uv)
qed

text \<open>
  Pixel size \<open>(4, 4)\<close> at distance \<open>100\<close> and beam vector \<open>(1, 2, 5)\<close>.
\<close>

theorem pixel_scaling_witness:
  "\<exists>t1 tp. FromBeamVectorToDetector_init world_axes (1, 1) (0, 0) 100 = Some t1 \<and>
     FromBeamVectorToDetector_init world_axes (4, 4) (0, 0) 100 = Some tp \<and>
     apply_vec3 t1 (1, 2, 5) = Some (Inr (20, 40)) \<and>
     apply_vec3 tp (1, 2, 5) = Some (Inr (1 / 4 * 20, 1 / 4 * 40))"
proof -
  let ?t1 = "\<lparr>x_axis = (1 / 1, 0, 0), y_axis = (0, 1 / 1, 0), normal = (0, 0, 1),
              origin = (0, 0), distance = 100\<rparr> :: FromBeamVectorToDetector"
  let ?tp = "\<lparr>x_axis = (1 / 4, 0, 0), y_axis = (0, 1 / 4, 0), normal = (0, 0, 1),
              origin = (0, 0), distance = 100\<rparr> :: FromBeamVectorToDetector"
  have i1: "FromBeamVectorToDetector_init world_axes (1, 1) (0, 0) 100 = Some ?t1"
    by (rule init_world_axes) simp
  have ip: "FromBeamVectorToDetector_init world_axes (4, 4) (0, 0) 100 = Some ?tp"
    by (rule init_world_axes) simp
  have a: "apply_vec3 ?t1 (1, 2, 5) = Some (Inr (20, 40))"
    by (simp add: apply_vec3_def double_div_def)
  note pixel_scaling [OF i1 ip a]
  with i1 ip a show ?thesis by (intro exI conjI)
qed

subsection \<open>C9: the default-constructed transform\<close>

text \<open>
  Claim C9. Whatever its vectors hold, the default-constructed transform has distance
  \<open>0\<close>, so the check \<open>distance * dot(s1, normal) > 0\<close> is false for every beam vector:
  the scalar apply throws the geometry error before any division, and the array apply
  returns \<open>(-1, -1)\<close> at every index.
\<close>

theorem default_transform_fails:
  "apply_vec3 (FromBeamVectorToDetector_default xa ya n og) s1 = Some (Inl GeometryError) \<and>
   \<not> distance (FromBeamVectorToDetector_default xa ya n og) *
       dot s1 (normal (FromBeamVectorToDetector_default xa ya n og)) > 0 \<and>
   apply_flex (FromBeamVectorToDetector_default xa ya n og) xs =
     Some (replicate (length xs) (-1, -1))"
proof (intro conjI)
  let ?t = "FromBeamVectorToDetector_default xa ya n og"
  show "apply_vec3 ?t s1 = Some (Inl GeometryError)"
    using default_guard by (rule apply_vec3_error)
  show "\<not> distance ?t * dot s1 (normal ?t) > 0"
    by (rule default_guard)
  from apply_flex_run [of ?t xs]
  obtain r where r1: "apply_flex ?t xs = Some r" and r2: "length r = length xs"
    and r3: "\<forall>j<length xs. try_apply ?t (xs ! j) = Some (r ! j)"
    by (elim exE conjE)
  have "r = replicate (length xs) (-1, -1)"
  proof (rule nth_equalityI)
    show "length r = length (replicate (length xs) (-1::real, -1::real))"
      using r2 by simp
  next
    fix j assume "j < length r"
    then have j: "j < length xs" using r2 by simp
    have "try_apply ?t (xs ! j) = Some (-1, -1)"
      using default_guard by (rule try_apply_error)
    moreover have "try_apply ?t (xs ! j) = Some (r ! j)" using r3 j by simp
    ultimately have "r ! j = (-1, -1)" by simp
    then show "r ! j = replicate (length xs) (-1, -1) ! j" using j by simp
  qed
  with r1 show "apply_flex ?t xs = Some (replicate (length xs) (-1, -1))" by simp
qed

text \<open>
  The default-constructed transform whose vectors are all zero.
\<close>

theorem default_transform_fails_witness:
  "apply_vec3 (FromBeamVectorToDetector_default (0, 0, 0) (0, 0, 0) (0, 0, 0) (0, 0)) (0, 0, 1) =
     Some (Inl GeometryError) \<and>
   apply_flex (FromBeamVectorToDetector_default (0, 0, 0) (0, 0, 0) (0, 0, 0) (0, 0))
     [(0, 0, 1), (1, 2, 3)] = Some [(-1, -1), (-1, -1)]"
  using default_transform_fails [of "(0, 0, 0)" "(0, 0, 0)" "(0, 0, 0)" "(0, 0)" "(0, 0, 1)"
      "[(0, 0, 1), (1, 2, 3)]"]
  by (simp add: numeral_2_eq_2)

subsection \<open>C10: the check guards both divisions\<close>

text \<open>
  Claim C10. When the check \<open>distance * dot(s1, normal) > 0\<close> passes, the divisor
  \<open>dot(s1, normal)\<close> is not zero and both divisions are defined. So the scalar apply
  never divides by zero: it throws the geometry error, or it returns the value made of
  the two defined quotients.
\<close>

theorem division_guarded:
  "(distance t * dot s1 (normal t) > 0 \<longrightarrow>
      dot s1 (normal t) \<noteq> 0 \<and>
      double_div (distance t * dot s1 (x_axis t)) (dot s1 (normal t)) \<noteq> None \<and>
      double_div (distance t * dot s1 (y_axis t)) (dot s1 (normal t)) \<noteq> None) \<and>
   apply_vec3 t s1 \<noteq> None \<and>
   (apply_vec3 t s1 = Some (Inl GeometryError) \<or>
    (\<exists>qx qy. double_div (distance t * dot s1 (x_axis t)) (dot s1 (normal t)) = Some qx \<and>
             double_div (distance t * dot s1 (y_axis t)) (dot s1 (normal t)) = Some qy \<and>
             apply_vec3 t s1 = Some (Inr (fst (origin t) + qx, snd (origin t) + qy))))"
proof (cases "distance t * dot s1 (normal t) > 0")
  case True
  then have nz: "dot s1 (normal t) \<noteq> 0" by (rule guard_nonzero)
  have qx: "double_div (distance t * dot s1 (x_axis t)) (dot s1 (normal t)) =
      Some (distance t * dot s1 (x_axis t) / dot s1 (normal t))"
    using nz by (rule double_div_Some)
  have qy: "double_div (distance t * dot s1 (y_axis t)) (dot s1 (normal t)) =
      Some (distance t * dot s1 (y_axis t) / dot s1 (normal t))"
    using nz by (rule double_div_Some)
  show ?thesis
    using nz by (simp add: qx qy apply_vec3_ok [OF True])
next
  case False
  then show ?thesis by (simp add: apply_vec3_error)
qed

text \<open>
  A beam vector that passes the check of a transform at distance \<open>10\<close>.
\<close>

theorem division_guarded_witness:
  "(0::real) < 10 * dot (1, 2, 5) (0, 0, 1) \<and> dot (1, 2, 5) (0, 0, 1) \<noteq> 0 \<and>
   double_div (10 * dot (1, 2, 5) (1, 0, 0)) (dot (1, 2, 5) (0, 0, 1)) \<noteq> None \<and>
   apply_vec3 \<lparr>x_axis = (1, 0, 0), y_axis = (0, 1, 0), normal = (0, 0, 1),
               origin = (2, 3), distance = 10\<rparr> (1, 2, 5) \<noteq> None"
  using division_guarded [of "\<lparr>x_axis = (1, 0, 0), y_axis = (0, 1, 0), normal = (0, 0, 1),
               origin = (2, 3), distance = 10\<rparr>" "(1, 2, 5)"]
  by simp

end
